theory Spec2Isabelle
  imports Main "HOL-Library.Sublist"
begin

section \<open>Data model\<close>

text \<open>
  A message is an object with a \<open>role\<close> and a \<open>content\<close> field; the source types it
  \<open>any\<close>, so the record is left extensible for whatever other fields a message carries.
  The content may be absent (\<open>undefined\<close>), \<open>null\<close> or a text.
\<close>

datatype content = Undefined | Null | Str string

record message =
  role :: string
  content :: content

text \<open>
  The tokenizer library is not part of the source; it is a parameter of the model.
  An encoding turns a text into its token sequence (\<open>enc.encode(text)\<close>), and
  \<open>encoding_for_model\<close> is partial: \<open>None\<close> stands for the exception it throws for a
  model it does not know. \<open>JSON.stringify\<close> on the tool collection is a parameter too.
  Token counts are natural numbers (the length of a token sequence), and the optional
  \<open>maxTokens\<close> argument is an integer, as in the specification's data model.
\<close>

type_synonym encoding = "string \<Rightarrow> nat list"

type_synonym tiktoken = "string \<Rightarrow> encoding option"

datatype error =
    ToolsTooLarge
  | InsufficientSystemBudget
  | EncodingUnavailable

section \<open>The values of the budget variable\<close>

text \<open>
  The variable \<open>maxTokens\<close> does not always hold an integer. The limit table is a plain
  object, so a lookup of a name that \<open>Object.prototype\<close> defines finds the inherited
  member, a function (or, for \<open>__proto__\<close>, the prototype object itself); and arithmetic
  on such a value gives \<open>NaN\<close>. The operators below are those the source applies to the
  variable: a function or object converts to \<open>NaN\<close>, every comparison with \<open>NaN\<close> is
  false, and every difference with \<open>NaN\<close> is \<open>NaN\<close>.
\<close>

datatype jsvalue = Number int | NaN | Member string

fun truthy :: "jsvalue \<Rightarrow> bool" where
  "truthy (Number n) = (n \<noteq> 0)"
| "truthy NaN = False"
| "truthy (Member name) = True"

text \<open>\<open>maxTokens - n\<close>, \<open>maxTokens < n\<close> and \<open>n > maxTokens\<close> for a number \<open>n\<close>.\<close>

fun jsSub :: "jsvalue \<Rightarrow> int \<Rightarrow> jsvalue" where
  "jsSub (Number b) n = Number (b - n)"
| "jsSub NaN n = NaN"
| "jsSub (Member name) n = NaN"

fun jsLt :: "jsvalue \<Rightarrow> int \<Rightarrow> bool" where
  "jsLt (Number b) n = (b < n)"
| "jsLt NaN n = False"
| "jsLt (Member name) n = False"

fun jsGt :: "int \<Rightarrow> jsvalue \<Rightarrow> bool" where
  "jsGt n (Number b) = (n > b)"
| "jsGt n NaN = False"
| "jsGt n (Member name) = False"

section \<open>The limit table\<close>

definition DEFAULT_MAX_TOKENS :: int where
  "DEFAULT_MAX_TOKENS = 128000"

definition maxTokensByModel :: "(string \<times> int) list" where
  "maxTokensByModel =
    [(''gpt-4o'', 128000),
     (''gpt-4o-2024-05-13'', 128000),
     (''gpt-4-turbo'', 128000),
     (''gpt-4-turbo-2024-04-09'', 128000),
     (''gpt-4-0125-preview'', 128000),
     (''gpt-4-turbo-preview'', 128000),
     (''gpt-4-1106-preview'', 128000),
     (''gpt-4-vision-preview'', 128000),
     (''gpt-4-1106-vision-preview'', 128000),
     (''gpt-4-32k'', 32768),
     (''gpt-4-32k-0613'', 32768),
     (''gpt-4-32k-0314'', 32768),
     (''gpt-4'', 8192),
     (''gpt-4-0613'', 8192),
     (''gpt-4-0314'', 8192),
     (''gpt-3.5-turbo-0125'', 16385),
     (''gpt-3.5-turbo'', 16385),
     (''gpt-3.5-turbo-1106'', 16385),
     (''gpt-3.5-turbo-instruct'', 4096),
     (''gpt-3.5-turbo-16k'', 16385),
     (''gpt-3.5-turbo-0613'', 4096),
     (''gpt-3.5-turbo-16k-0613'', 16385),
     (''gpt-3.5-turbo-0301'', 4097)]"

text \<open>
  The table is an object literal, whose prototype is \<open>Object.prototype\<close>. The names that
  ECMAScript defines there are not in the source; they are listed here from the language
  standard.
\<close>

definition objectPrototype :: "string list" where
  "objectPrototype =
    [''constructor'',
     ''hasOwnProperty'',
     ''isPrototypeOf'',
     ''propertyIsEnumerable'',
     ''toLocaleString'',
     ''toString'',
     ''valueOf'',
     ''__proto__'',
     ''__defineGetter__'',
     ''__defineSetter__'',
     ''__lookupGetter__'',
     ''__lookupSetter__'']"

text \<open>\<open>maxTokensByModel[model]\<close>: an own entry, else an inherited member, else
  \<open>undefined\<close> (here \<open>None\<close>).\<close>

definition lookupMaxTokens :: "string \<Rightarrow> jsvalue option" where
  "lookupMaxTokens model =
     (case map_of maxTokensByModel model of
        Some n \<Rightarrow> Some (Number n)
      | None \<Rightarrow> if model \<in> set objectPrototype then Some (Member model) else None)"

text \<open>\<open>maxTokensByModel[model] || DEFAULT_MAX_TOKENS\<close>: \<open>undefined\<close> and a zero
  entry are falsy, an inherited member is truthy.\<close>

definition maxTokensForOpenAIModel :: "string \<Rightarrow> jsvalue" where
  "maxTokensForOpenAIModel model =
     (case lookupMaxTokens model of
        None \<Rightarrow> Number DEFAULT_MAX_TOKENS
      | Some v \<Rightarrow> if truthy v then v else Number DEFAULT_MAX_TOKENS)"

section \<open>Counting tokens\<close>

text \<open>The \<open>try\<close> asks for the model's encoding; the \<open>catch\<close> asks for the one of
  \<open>gpt-4o\<close>, and an exception of that second call is not caught.\<close>

definition countTokens :: "tiktoken \<Rightarrow> string \<Rightarrow> string \<Rightarrow> error + nat" where
  "countTokens encoding_for_model model text =
     (case encoding_for_model model of
        Some enc \<Rightarrow> Inr (length (enc text))
      | None \<Rightarrow>
          (case encoding_for_model ''gpt-4o'' of
             Some enc \<Rightarrow> Inr (length (enc text))
           | None \<Rightarrow> Inl EncodingUnavailable))"

text \<open>\<open>message.content || ""\<close>: \<open>undefined\<close>, \<open>null\<close> and the empty string are falsy.\<close>

fun contentOrEmpty :: "content \<Rightarrow> string" where
  "contentOrEmpty Undefined = ''''"
| "contentOrEmpty Null = ''''"
| "contentOrEmpty (Str s) = (if s = '''' then '''' else s)"

definition countMessageTokens ::
  "tiktoken \<Rightarrow> string \<Rightarrow> 'a message_scheme \<Rightarrow> error + nat" where
  "countMessageTokens tk model message = countTokens tk model (contentOrEmpty (content message))"

definition countToolsTokens ::
  "tiktoken \<Rightarrow> ('t list \<Rightarrow> string) \<Rightarrow> string \<Rightarrow> 't list \<Rightarrow> error + nat" where
  "countToolsTokens tk stringify model tools =
     (if length tools = 0 then Inr 0
      else countTokens tk model (stringify tools))"

section \<open>The budget allocator\<close>

text \<open>\<open>maxTokens ||= maxTokensForOpenAIModel(model)\<close>: an absent argument and the
  argument 0 are both falsy.\<close>

definition resolveMaxTokens :: "string \<Rightarrow> int option \<Rightarrow> jsvalue" where
  "resolveMaxTokens model maxTokens =
     (case maxTokens of
        None \<Rightarrow> maxTokensForOpenAIModel model
      | Some n \<Rightarrow> if n = 0 then maxTokensForOpenAIModel model else Number n)"

text \<open>The first loop: the budget is charged for every system message, in input order.\<close>

fun systemLoop ::
  "tiktoken \<Rightarrow> string \<Rightarrow> 'a message_scheme list \<Rightarrow> jsvalue \<Rightarrow> error + jsvalue" where
  "systemLoop tk model [] maxTokens = Inr maxTokens"
| "systemLoop tk model (message # rest) maxTokens =
     (if role message = ''system'' then
        (case countMessageTokens tk model message of
           Inl e \<Rightarrow> Inl e
         | Inr numTokens \<Rightarrow>
             (if jsLt (jsSub maxTokens (int numTokens)) 0 then Inl InsufficientSystemBudget
              else systemLoop tk model rest (jsSub maxTokens (int numTokens))))
      else systemLoop tk model rest maxTokens)"

text \<open>The second loop runs over the reversed messages; its state is the result built so
  far (\<open>unshift\<close> puts a message in front), the cutoff flag and the remaining budget.\<close>

fun selectLoop ::
  "tiktoken \<Rightarrow> string \<Rightarrow> 'a message_scheme list \<Rightarrow>
   'a message_scheme list \<times> bool \<times> jsvalue \<Rightarrow>
   error + ('a message_scheme list \<times> bool \<times> jsvalue)" where
  "selectLoop tk model [] st = Inr st"
| "selectLoop tk model (message # rest) (result, cutoff, maxTokens) =
     (if role message = ''system'' then
        selectLoop tk model rest (message # result, cutoff, maxTokens)
      else if cutoff then
        selectLoop tk model rest (result, cutoff, maxTokens)
      else
        (case countMessageTokens tk model message of
           Inl e \<Rightarrow> Inl e
         | Inr numTokens \<Rightarrow>
             (if jsLt maxTokens (int numTokens) then
                selectLoop tk model rest (result, True, maxTokens)
              else
                selectLoop tk model rest
                  (message # result, cutoff, jsSub maxTokens (int numTokens)))))"

text \<open>Everything after the tool reservation: both loops, from the budget that is left.\<close>

definition limitMessages ::
  "tiktoken \<Rightarrow> string \<Rightarrow> 'a message_scheme list \<Rightarrow> jsvalue \<Rightarrow>
   error + 'a message_scheme list" where
  "limitMessages tk model messages maxTokens =
     (case systemLoop tk model messages maxTokens of
        Inl e \<Rightarrow> Inl e
      | Inr maxTokens' \<Rightarrow>
          (case selectLoop tk model (rev messages) ([], False, maxTokens') of
             Inl e \<Rightarrow> Inl e
           | Inr (result, cutoff, left) \<Rightarrow> Inr result))"

definition limitMessagesToTokenCount ::
  "tiktoken \<Rightarrow> ('t list \<Rightarrow> string) \<Rightarrow> 'a message_scheme list \<Rightarrow> 't list \<Rightarrow> string \<Rightarrow>
   int option \<Rightarrow> error + 'a message_scheme list" where
  "limitMessagesToTokenCount tk stringify messages tools model maxTokens =
     (case countToolsTokens tk stringify model tools of
        Inl e \<Rightarrow> Inl e
      | Inr toolsNumTokens \<Rightarrow>
          (if jsGt (int toolsNumTokens) (resolveMaxTokens model maxTokens) then Inl ToolsTooLarge
           else limitMessages tk model messages
                  (jsSub (resolveMaxTokens model maxTokens) (int toolsNumTokens))))"

section \<open>Vocabulary of the statements\<close>

text \<open>
  The token counts the statements speak about are the values the counting functions
  return; they are read as 0 where the count raises (no statement uses them there).
\<close>

definition isSystem :: "'a message_scheme \<Rightarrow> bool" where
  "isSystem m \<longleftrightarrow> role m = ''system''"

definition messageTokens :: "tiktoken \<Rightarrow> string \<Rightarrow> 'a message_scheme \<Rightarrow> int" where
  "messageTokens tk model m =
     (case countMessageTokens tk model m of Inl e \<Rightarrow> 0 | Inr n \<Rightarrow> int n)"

definition toolsTokens :: "tiktoken \<Rightarrow> ('t list \<Rightarrow> string) \<Rightarrow> string \<Rightarrow> 't list \<Rightarrow> int" where
  "toolsTokens tk stringify model tools =
     (case countToolsTokens tk stringify model tools of Inl e \<Rightarrow> 0 | Inr n \<Rightarrow> int n)"

definition systemTokens :: "tiktoken \<Rightarrow> string \<Rightarrow> 'a message_scheme list \<Rightarrow> int" where
  "systemTokens tk model ms = sum_list (map (messageTokens tk model) (filter isSystem ms))"

text \<open>
  The budget variable holds an integer (\<open>isInteger\<close>), or at least a value of type
  number, \<open>NaN\<close> included (\<open>numberTyped\<close>).
\<close>

fun isInteger :: "jsvalue \<Rightarrow> bool" where
  "isInteger (Number b) = True"
| "isInteger NaN = False"
| "isInteger (Member name) = False"

fun numberTyped :: "jsvalue \<Rightarrow> bool" where
  "numberTyped (Number b) = True"
| "numberTyped NaN = True"
| "numberTyped (Member name) = False"

text \<open>
  The retention rule in the words of the specification (not taken from the code, and compared
  with it below), on the non-system messages listed from the most recent one: keep a message
  and pay for it while it fits the budget that is left; stop for good at the first one that
  does not fit.
\<close>

fun specRetention ::
  "tiktoken \<Rightarrow> string \<Rightarrow> int \<Rightarrow> 'a message_scheme list \<Rightarrow> 'a message_scheme list" where
  "specRetention tk model budget [] = []"
| "specRetention tk model budget (m # older) =
     (if budget < messageTokens tk model m then []
      else m # specRetention tk model (budget - messageTokens tk model m) older)"

text \<open>
  Counting raises only when the tokenizer library has an encoding neither for the model nor
  for \<open>gpt-4o\<close>. The statements about token costs are made for a library that has one.
\<close>

definition encodingAvailable :: "tiktoken \<Rightarrow> string \<Rightarrow> bool" where
  "encodingAvailable tk model \<longleftrightarrow> tk model \<noteq> None \<or> tk ''gpt-4o'' \<noteq> None"

section \<open>Concrete inputs\<close>

text \<open>
  A small tokenizer library for the examples: it knows \<open>gpt-4o\<close> only, whose encoding
  makes one token of every character. Tools are given as their JSON texts and serialised
  as a JSON array. The four messages are those of the specification's scenarios, with 5, 10,
  10 and 5 tokens.
\<close>

definition charEncoding :: encoding where
  "charEncoding text = map of_char text"

definition demoTiktoken :: tiktoken where
  "demoTiktoken model = (if model = ''gpt-4o'' then Some charEncoding else None)"

fun commaSeparated :: "string list \<Rightarrow> string" where
  "commaSeparated [] = ''''"
| "commaSeparated [t] = t"
| "commaSeparated (t # ts) = t @ '','' @ commaSeparated ts"

definition jsonArray :: "string list \<Rightarrow> string" where
  "jsonArray tools = ''['' @ commaSeparated tools @ '']''"

definition msgS :: message where
  "msgS = \<lparr>role = ''system'', content = Str ''SSSSS''\<rparr>"

definition msgA :: message where
  "msgA = \<lparr>role = ''user'', content = Str ''AAAAAAAAAA''\<rparr>"

definition msgB :: message where
  "msgB = \<lparr>role = ''assistant'', content = Str ''BBBBBBBBBB''\<rparr>"

definition msgC :: message where
  "msgC = \<lparr>role = ''user'', content = Str ''CCCCC''\<rparr>"

text \<open>
  A second library, which also knows \<open>text-davinci-003\<close>, a model the limit table does
  not list, with an encoding that makes one token of a whole text. Two messages without
  content, one of them a system message.
\<close>

definition wholeTextEncoding :: encoding where
  "wholeTextEncoding text = (if text = [] then [] else [length text])"

definition twoModelTiktoken :: tiktoken where
  "twoModelTiktoken model =
     (if model = ''gpt-4o'' then Some charEncoding
      else if model = ''text-davinci-003'' then Some wholeTextEncoding
      else None)"

definition msgEmpty :: message where
  "msgEmpty = \<lparr>role = ''user'', content = Null\<rparr>"

definition msgNoContent :: message where
  "msgNoContent = \<lparr>role = ''system'', content = Undefined\<rparr>"

lemmas demo_defs = msgS_def msgA_def msgB_def msgC_def jsonArray_def demoTiktoken_def
  charEncoding_def limitMessagesToTokenCount_def limitMessages_def countToolsTokens_def
  countMessageTokens_def countTokens_def resolveMaxTokens_def maxTokensForOpenAIModel_def
  lookupMaxTokens_def maxTokensByModel_def objectPrototype_def DEFAULT_MAX_TOKENS_def

section \<open>The limit table and inherited names\<close>

lemma inherited_not_listed:
  "\<forall>name \<in> set objectPrototype. map_of maxTokensByModel name = None"
  unfolding objectPrototype_def maxTokensByModel_def by simp

lemma maxTokensForOpenAIModel_inherited:
  "model \<in> set objectPrototype \<Longrightarrow> maxTokensForOpenAIModel model = Member model"
  using inherited_not_listed by (simp add: maxTokensForOpenAIModel_def lookupMaxTokens_def)

lemma maxTokensForOpenAIModel_constructor:
  "maxTokensForOpenAIModel ''constructor'' = Member ''constructor''"
  by (rule maxTokensForOpenAIModel_inherited) (simp add: objectPrototype_def)

section \<open>The two loops\<close>

lemma not_integer_ops:
  "\<not> isInteger v \<Longrightarrow> jsLt v n = False"
  "\<not> isInteger v \<Longrightarrow> jsGt n v = False"
  "\<not> isInteger v \<Longrightarrow> jsSub v n = NaN"
  by (cases v; simp)+

lemma selectLoop_cutoff:
  "selectLoop tk model ms (r, True, b) = Inr (rev (filter isSystem ms) @ r, True, b)"
  by (induction ms arbitrary: r) (simp_all add: isSystem_def)

lemma selectLoop_subseq:
  "selectLoop tk model ms (r, c, b) = Inr (r', c', b') \<Longrightarrow> \<exists>ys. r' = ys @ r \<and> subseq ys (rev ms)"
proof (induction ms arbitrary: r c b)
  case Nil
  then show ?case by simp
next
  case (Cons m ms)
  from Cons.prems obtain r1 c1 b1 where
    step: "selectLoop tk model ms (r1, c1, b1) = Inr (r', c', b')" and r1: "r1 = r \<or> r1 = m # r"
    by (auto split: if_splits sum.splits)
  from Cons.IH [OF step] obtain ys where ys: "r' = ys @ r1" "subseq ys (rev ms)" by blast
  from r1 show ?case
  proof
    assume "r1 = r"
    with ys show ?thesis by (intro exI [of _ ys]) (simp add: subseq_rev_drop_many)
  next
    assume "r1 = m # r"
    with ys show ?thesis by (intro exI [of _ "ys @ [m]"]) (simp add: list_emb_append_mono)
  qed
qed

lemma selectLoop_system:
  "selectLoop tk model ms (r, c, b) = Inr (r', c', b') \<Longrightarrow>
   filter isSystem r' = rev (filter isSystem ms) @ filter isSystem r"
  by (induction ms arbitrary: r c b) (auto simp: isSystem_def split: if_splits sum.splits)

lemma selectLoop_others:
  "selectLoop tk model ms (r, c, Number b) = Inr (r', c', b') \<Longrightarrow>
   filter (\<lambda>m. \<not> isSystem m) r' =
     rev (if c then [] else specRetention tk model b (filter (\<lambda>m. \<not> isSystem m) ms))
       @ filter (\<lambda>m. \<not> isSystem m) r"
  by (induction ms arbitrary: r c b)
     (auto simp: isSystem_def messageTokens_def selectLoop_cutoff split: if_splits sum.splits)

lemma selectLoop_keeps_all:
  "\<not> isInteger v \<Longrightarrow> selectLoop tk model ms (r, False, v) = Inr (r', c', v') \<Longrightarrow>
   r' = rev ms @ r"
proof (induction ms arbitrary: r v)
  case Nil
  then show ?case by simp
next
  case (Cons m ms)
  show ?case
  proof (cases "role m = ''system''")
    case True
    with Cons.prems have "selectLoop tk model ms (m # r, False, v) = Inr (r', c', v')" by simp
    from Cons.IH [OF Cons.prems(1) this] show ?thesis by simp
  next
    case False
    with Cons.prems obtain n where
      "selectLoop tk model ms (m # r, False, NaN) = Inr (r', c', v')"
      by (auto simp: not_integer_ops split: sum.splits)
    from Cons.IH [OF _ this] show ?thesis by simp
  qed
qed

lemma selectLoop_without_system:
  "selectLoop tk model ms (r, c, b) = Inr (r', c', b') \<Longrightarrow>
   \<exists>r''. selectLoop tk model (filter (\<lambda>m. \<not> isSystem m) ms) (r0, c, b) = Inr (r'', c', b')"
  by (induction ms arbitrary: r r0 c b) (auto simp: isSystem_def split: if_splits sum.splits)

lemma systemLoop_left:
  "systemLoop tk model ms (Number b) = Inr b' \<Longrightarrow> b' = Number (b - systemTokens tk model ms)"
proof (induction ms arbitrary: b)
  case Nil
  then show ?case by (simp add: systemTokens_def)
next
  case (Cons m ms)
  show ?case
  proof (cases "role m = ''system''")
    case False
    with Cons.prems have "systemLoop tk model ms (Number b) = Inr b'" by simp
    from Cons.IH [OF this] False show ?thesis by (simp add: systemTokens_def isSystem_def)
  next
    case True
    with Cons.prems obtain n where n: "countMessageTokens tk model m = Inr n"
      and rest: "systemLoop tk model ms (Number (b - int n)) = Inr b'"
      by (auto split: sum.splits if_splits)
    from Cons.IH [OF rest] True n show ?thesis
      by (simp add: systemTokens_def isSystem_def messageTokens_def)
  qed
qed

lemma systemLoop_not_integer:
  "\<not> isInteger v \<Longrightarrow> systemLoop tk model ms v = Inr v' \<Longrightarrow> \<not> isInteger v'"
proof (induction ms arbitrary: v)
  case Nil
  then show ?case by simp
next
  case (Cons m ms)
  show ?case
  proof (cases "role m = ''system''")
    case False
    with Cons show ?thesis by simp
  next
    case True
    with Cons.prems have "systemLoop tk model ms NaN = Inr v'"
      by (auto simp: not_integer_ops split: sum.splits)
    from Cons.IH [OF _ this] show ?thesis by simp
  qed
qed

lemma limit_returns:
  assumes "limitMessagesToTokenCount tk stringify messages tools model maxTokens = Inr out"
  obtains v c left where
    "\<not> jsGt (toolsTokens tk stringify model tools) (resolveMaxTokens model maxTokens)"
    "systemLoop tk model messages
       (jsSub (resolveMaxTokens model maxTokens) (toolsTokens tk stringify model tools)) = Inr v"
    "selectLoop tk model (rev messages) ([], False, v) = Inr (out, c, left)"
  using assms
  by (auto simp: limitMessagesToTokenCount_def limitMessages_def toolsTokens_def
      split: sum.splits if_splits)

lemma limit_returns_integer:
  assumes "limitMessagesToTokenCount tk stringify messages tools model maxTokens = Inr out"
    and "resolveMaxTokens model maxTokens = Number B"
  obtains c left where
    "selectLoop tk model (rev messages)
       ([], False, Number (B - toolsTokens tk stringify model tools
                     - systemTokens tk model messages)) = Inr (out, c, left)"
    "toolsTokens tk stringify model tools \<le> B"
    "systemLoop tk model messages (Number (B - toolsTokens tk stringify model tools))
       = Inr (Number (B - toolsTokens tk stringify model tools - systemTokens tk model messages))"
proof -
  from assms(1) obtain v c left where
    pass: "\<not> jsGt (toolsTokens tk stringify model tools) (resolveMaxTokens model maxTokens)"
    and sys: "systemLoop tk model messages
       (jsSub (resolveMaxTokens model maxTokens) (toolsTokens tk stringify model tools)) = Inr v"
    and sel: "selectLoop tk model (rev messages) ([], False, v) = Inr (out, c, left)"
    by (rule limit_returns)
  from sys assms(2)
  have "v = Number (B - toolsTokens tk stringify model tools - systemTokens tk model messages)"
    by (auto dest: systemLoop_left)
  with pass sys sel assms(2) show ?thesis by (intro that [of c left]) simp_all
qed

lemma limit_returns_not_integer:
  assumes "limitMessagesToTokenCount tk stringify messages tools model maxTokens = Inr out"
    and "\<not> isInteger (resolveMaxTokens model maxTokens)"
  shows "out = messages"
proof -
  from assms(1) obtain v c left where
    sys: "systemLoop tk model messages
       (jsSub (resolveMaxTokens model maxTokens) (toolsTokens tk stringify model tools)) = Inr v"
    and sel: "selectLoop tk model (rev messages) ([], False, v) = Inr (out, c, left)"
    by (rule limit_returns)
  from assms(2) have "\<not> isInteger
      (jsSub (resolveMaxTokens model maxTokens) (toolsTokens tk stringify model tools))"
    by (simp add: not_integer_ops)
  from systemLoop_not_integer [OF this sys] have "\<not> isInteger v" .
  from selectLoop_keeps_all [OF this sel] show ?thesis by simp
qed

lemma specRetention_prefix: "prefix (specRetention tk model b xs) xs"
  by (induction xs arbitrary: b) simp_all

lemma specRetention_suffix_rev: "suffix (rev (specRetention tk model b (rev xs))) xs"
  using specRetention_prefix [of tk model b "rev xs"] by (simp add: suffix_to_prefix)

section \<open>With an encoding available\<close>

lemma countTokens_available:
  "encodingAvailable tk model \<Longrightarrow> \<exists>n. countTokens tk model text = Inr n"
  by (auto simp: encodingAvailable_def countTokens_def split: option.splits)

lemma countMessageTokens_available:
  "encodingAvailable tk model \<Longrightarrow>
   countMessageTokens tk model m = Inr (nat (messageTokens tk model m))"
  using countTokens_available [of tk model "contentOrEmpty (content m)"]
  by (auto simp: messageTokens_def countMessageTokens_def)

lemma countToolsTokens_available:
  "encodingAvailable tk model \<Longrightarrow>
   countToolsTokens tk stringify model tools = Inr (nat (toolsTokens tk stringify model tools))"
  using countTokens_available [of tk model "stringify tools"]
  by (auto simp: toolsTokens_def countToolsTokens_def)

lemma messageTokens_nonneg: "0 \<le> messageTokens tk model m"
  by (simp add: messageTokens_def split: sum.splits)

lemma toolsTokens_nonneg: "0 \<le> toolsTokens tk stringify model tools"
  by (simp add: toolsTokens_def split: sum.splits)

lemma systemTokens_nonneg: "0 \<le> systemTokens tk model ms"
  unfolding systemTokens_def by (rule sum_list_nonneg) (auto simp: messageTokens_nonneg)

lemma systemTokens_Cons:
  "systemTokens tk model (m # ms) =
     (if isSystem m then messageTokens tk model m else 0) + systemTokens tk model ms"
  by (simp add: systemTokens_def)

lemma systemLoop_available:
  assumes "encodingAvailable tk model"
  shows "0 \<le> b \<Longrightarrow> systemLoop tk model ms (Number b) =
     (if b < systemTokens tk model ms then Inl InsufficientSystemBudget
      else Inr (Number (b - systemTokens tk model ms)))"
proof (induction ms arbitrary: b)
  case Nil
  then show ?case by (simp add: systemTokens_def)
next
  case (Cons m ms)
  show ?case
  proof (cases "isSystem m")
    case False
    with Cons show ?thesis by (simp add: systemTokens_Cons isSystem_def)
  next
    case True
    note sys = this
    have n: "countMessageTokens tk model m = Inr (nat (messageTokens tk model m))"
      by (rule countMessageTokens_available [OF assms])
    have nn: "0 \<le> messageTokens tk model m" by (rule messageTokens_nonneg)
    have rest: "0 \<le> systemTokens tk model ms" by (rule systemTokens_nonneg)
    show ?thesis
    proof (cases "b < messageTokens tk model m")
      case True
      with sys n nn rest show ?thesis
        by (simp add: systemTokens_Cons isSystem_def)
    next
      case False
      then have "0 \<le> b - messageTokens tk model m" by simp
      from Cons.IH [OF this] sys n nn False show ?thesis
        by (auto simp: systemTokens_Cons isSystem_def)
    qed
  qed
qed

lemma systemLoop_available_not_integer:
  assumes "encodingAvailable tk model"
  shows "\<not> isInteger v \<Longrightarrow> \<exists>v'. systemLoop tk model ms v = Inr v'"
proof (induction ms arbitrary: v)
  case Nil
  then show ?case by simp
next
  case (Cons m ms)
  have "\<not> isInteger NaN" by simp
  from Cons.IH [OF this] Cons.IH [OF Cons.prems] show ?case
    by (simp add: countMessageTokens_available [OF assms] not_integer_ops Cons.prems)
qed

lemma systemLoop_only_system:
  "systemLoop tk model ms b = systemLoop tk model (filter isSystem ms) b"
  by (induction ms arbitrary: b) (auto simp: isSystem_def split: sum.splits)

lemma systemLoop_error:
  "systemLoop tk model ms b = Inl e \<Longrightarrow> e \<noteq> ToolsTooLarge"
  by (induction ms arbitrary: b)
     (auto simp: countMessageTokens_def countTokens_def split: if_splits sum.splits option.splits)

lemma selectLoop_error:
  "selectLoop tk model ms (r, c, b) = Inl e \<Longrightarrow> e = EncodingUnavailable"
  by (induction ms arbitrary: r c b)
     (auto simp: countMessageTokens_def countTokens_def split: if_splits sum.splits option.splits)

lemma selectLoop_available:
  assumes "encodingAvailable tk model"
  shows "\<exists>r' c' b'. selectLoop tk model ms (r, c, b) = Inr (r', c', b')"
  by (induction ms arbitrary: r c b)
     (auto simp: countMessageTokens_available [OF assms])

lemma limitMessages_error:
  "limitMessages tk model ms b \<noteq> Inl ToolsTooLarge"
  by (auto simp: limitMessages_def split: sum.splits dest: systemLoop_error selectLoop_error)

lemma limitMessages_available:
  assumes "encodingAvailable tk model" and "0 \<le> b"
  shows "limitMessages tk model ms (Number b) = Inl InsufficientSystemBudget
           \<longleftrightarrow> b < systemTokens tk model ms"
    and "\<not> b < systemTokens tk model ms \<Longrightarrow> \<exists>out. limitMessages tk model ms (Number b) = Inr out"
proof -
  have sys: "systemLoop tk model ms (Number b) =
     (if b < systemTokens tk model ms then Inl InsufficientSystemBudget
      else Inr (Number (b - systemTokens tk model ms)))"
    by (rule systemLoop_available [OF assms])
  obtain r' c' b' where sel: "selectLoop tk model (rev ms)
      ([], False, Number (b - systemTokens tk model ms)) = Inr (r', c', b')"
    using selectLoop_available [OF assms(1)] by blast
  show "limitMessages tk model ms (Number b) = Inl InsufficientSystemBudget
          \<longleftrightarrow> b < systemTokens tk model ms"
    by (simp add: limitMessages_def sys sel)
  show "\<not> b < systemTokens tk model ms \<Longrightarrow> \<exists>out. limitMessages tk model ms (Number b) = Inr out"
    by (simp add: limitMessages_def sys sel)
qed

lemma limitMessages_available_not_integer:
  assumes "encodingAvailable tk model" and "\<not> isInteger v"
  shows "limitMessages tk model ms v = Inr ms"
proof -
  from systemLoop_available_not_integer [OF assms] obtain v' where
    sys: "systemLoop tk model ms v = Inr v'" by blast
  from systemLoop_not_integer [OF assms(2) sys] have v': "\<not> isInteger v'" .
  obtain r' c' b' where sel: "selectLoop tk model (rev ms) ([], False, v') = Inr (r', c', b')"
    using selectLoop_available [OF assms(1)] by blast
  from selectLoop_keeps_all [OF v' sel] have "r' = ms" by simp
  with sys sel show ?thesis by (simp add: limitMessages_def)
qed

lemma limit_unfold:
  assumes "encodingAvailable tk model"
  shows "limitMessagesToTokenCount tk stringify messages tools model maxTokens =
     (if jsGt (toolsTokens tk stringify model tools) (resolveMaxTokens model maxTokens)
      then Inl ToolsTooLarge
      else limitMessages tk model messages
             (jsSub (resolveMaxTokens model maxTokens) (toolsTokens tk stringify model tools)))"
  using toolsTokens_nonneg [of tk stringify model tools]
  by (simp add: limitMessagesToTokenCount_def countToolsTokens_available [OF assms])

lemma sum_list_split_filter:
  "sum_list (map f xs) = sum_list (map f (filter P xs)) + sum_list (map f (filter (\<lambda>x. \<not> P x) xs))"
  for f :: "'b \<Rightarrow> int"
  by (induction xs) simp_all

lemma selectLoop_all_fit:
  assumes "encodingAvailable tk model"
  shows "sum_list (map (messageTokens tk model) (filter (\<lambda>m. \<not> isSystem m) ms)) \<le> b \<Longrightarrow>
     selectLoop tk model ms (r, False, Number b) =
       Inr (rev ms @ r, False,
            Number (b - sum_list (map (messageTokens tk model) (filter (\<lambda>m. \<not> isSystem m) ms))))"
proof (induction ms arbitrary: r b)
  case Nil
  then show ?case by simp
next
  case (Cons m ms)
  show ?case
  proof (cases "isSystem m")
    case True
    with Cons show ?thesis by (simp add: isSystem_def)
  next
    case False
    have n: "countMessageTokens tk model m = Inr (nat (messageTokens tk model m))"
      by (rule countMessageTokens_available [OF assms])
    have nn: "0 \<le> messageTokens tk model m" by (rule messageTokens_nonneg)
    have "0 \<le> sum_list (map (messageTokens tk model) (filter (\<lambda>m. \<not> isSystem m) ms))"
      by (rule sum_list_nonneg) (auto simp: messageTokens_nonneg)
    with Cons.prems False have fits: "messageTokens tk model m \<le> b"
      and rest: "sum_list (map (messageTokens tk model) (filter (\<lambda>m. \<not> isSystem m) ms))
                   \<le> b - messageTokens tk model m"
      by simp_all
    from Cons.IH [OF rest] False n nn fits show ?thesis
      by (simp add: isSystem_def algebra_simps)
  qed
qed

section \<open>Further facts about the loops\<close>

lemma systemLoop_append:
  "systemLoop tk model (xs @ ys) b =
     (case systemLoop tk model xs b of Inl e \<Rightarrow> Inl e | Inr b1 \<Rightarrow> systemLoop tk model ys b1)"
  by (induction xs arbitrary: b) (auto split: sum.splits)

lemma systemLoop_nonneg:
  "systemLoop tk model xs b = Inr b1 \<Longrightarrow> numberTyped b \<Longrightarrow> \<not> jsLt b 0 \<Longrightarrow>
   numberTyped b1 \<and> \<not> jsLt b1 0"
proof (induction xs arbitrary: b)
  case Nil
  then show ?case by simp
next
  case (Cons m ms)
  show ?case
  proof (cases "role m = ''system''")
    case False
    with Cons show ?thesis by simp
  next
    case True
    with Cons.prems obtain n where
      rest: "systemLoop tk model ms (jsSub b (int n)) = Inr b1"
      and ok: "\<not> jsLt (jsSub b (int n)) 0"
      by (auto split: sum.splits if_splits)
    have "numberTyped (jsSub b (int n))" by (cases b) simp_all
    from Cons.IH [OF rest this ok] show ?thesis .
  qed
qed

lemma jsSub_zero: "numberTyped b \<Longrightarrow> jsSub b 0 = b"
  by (cases b) simp_all

text \<open>The budget the two loops start from is of type number and not negative.\<close>

lemma reserved_budget_typed:
  "\<not> jsGt (int t) v \<Longrightarrow> numberTyped (jsSub v (int t)) \<and> \<not> jsLt (jsSub v (int t)) 0"
  by (cases v) simp_all

lemma selectLoop_nonneg:
  "selectLoop tk model ms (r, c, b) = Inr (r', c', b') \<Longrightarrow> numberTyped b \<Longrightarrow> \<not> jsLt b 0 \<Longrightarrow>
   numberTyped b' \<and> \<not> jsLt b' 0"
proof (induction ms arbitrary: r c b)
  case Nil
  then show ?case by simp
next
  case (Cons m ms)
  from Cons.prems(1) obtain r1 c1 b1 where
    step: "selectLoop tk model ms (r1, c1, b1) = Inr (r', c', b')"
    and b1: "b1 = b \<or> (\<exists>n. b1 = jsSub b (int n) \<and> \<not> jsLt b (int n))"
    by (auto split: if_splits sum.splits)
  from b1 Cons.prems(2,3) have "numberTyped b1 \<and> \<not> jsLt b1 0"
    by (cases b) auto
  with Cons.IH [OF step] show ?case by simp
qed

lemma specRetention_prefix_append:
  "prefix xs (specRetention tk model b (xs @ ys)) \<Longrightarrow> 0 \<le> b \<Longrightarrow>
   \<exists>b'. 0 \<le> b' \<and> specRetention tk model b (xs @ ys) = xs @ specRetention tk model b' ys"
proof (induction xs arbitrary: b)
  case Nil
  then show ?case by auto
next
  case (Cons x xs)
  from Cons.prems(1) have fits: "\<not> b < messageTokens tk model x"
    by (auto split: if_splits)
  with Cons.prems(1) have pre: "prefix xs (specRetention tk model (b - messageTokens tk model x) (xs @ ys))"
    by simp
  from fits have "0 \<le> b - messageTokens tk model x" by simp
  from Cons.IH [OF pre this] fits show ?case by auto
qed

section \<open>Order and completeness of the output\<close>

text \<open>
  Claim C1. Whenever \<open>limitMessagesToTokenCount\<close> returns, for any messages, tools,
  model and optional \<open>maxTokens\<close>, what it returns is a subsequence of the input
  messages: the input with some messages left out, the others in their input order.
\<close>

theorem limit_subsequence:
  "limitMessagesToTokenCount tk stringify messages tools model maxTokens = Inr out \<Longrightarrow>
   subseq out messages"
proof -
  assume "limitMessagesToTokenCount tk stringify messages tools model maxTokens = Inr out"
  then obtain b c left where "selectLoop tk model (rev messages) ([], False, b) = Inr (out, c, left)"
    by (rule limit_returns)
  from selectLoop_subseq [OF this] show ?thesis by simp
qed

theorem limit_subsequence_witness:
  "limitMessagesToTokenCount demoTiktoken jsonArray [msgS, msgA, msgB, msgC] [] ''gpt-4'' (Some 12)
     = Inr [msgS, msgC] \<and> subseq [msgS, msgC] [msgS, msgA, msgB, msgC]"
proof -
  have run: "limitMessagesToTokenCount demoTiktoken jsonArray [msgS, msgA, msgB, msgC] []
               ''gpt-4'' (Some 12) = Inr [msgS, msgC]"
    by (simp add: demo_defs)
  from run limit_subsequence [OF run] show ?thesis by simp
qed

text \<open>
  Claim C2. Whenever \<open>limitMessagesToTokenCount\<close> returns, the system messages of the
  output are exactly the system messages of the input, unchanged and in the input's order,
  whatever their token counts. The second loop does not charge them to its budget: run on
  the same messages without the system ones, from the same state, it ends with the same
  cutoff flag and the same remaining budget.
\<close>

theorem system_messages_complete:
  "limitMessagesToTokenCount tk stringify messages tools model maxTokens = Inr out \<Longrightarrow>
   filter isSystem out = filter isSystem messages \<and>
   (\<forall>ms r c b r' c' b'.
      selectLoop tk model ms (r, c, b) = Inr (r', c', b') \<longrightarrow>
      (\<exists>r''. selectLoop tk model (filter (\<lambda>m. \<not> isSystem m) ms) (r, c, b) = Inr (r'', c', b')))"
proof -
  assume "limitMessagesToTokenCount tk stringify messages tools model maxTokens = Inr out"
  then obtain b c left where "selectLoop tk model (rev messages) ([], False, b) = Inr (out, c, left)"
    by (rule limit_returns)
  from selectLoop_system [OF this] have "filter isSystem out = filter isSystem messages"
    by (simp add: rev_filter)
  then show ?thesis
    using selectLoop_without_system by blast
qed

theorem system_messages_complete_witness:
  "limitMessagesToTokenCount demoTiktoken jsonArray [msgS, msgA, msgB, msgC] [] ''gpt-4'' (Some 12)
     = Inr [msgS, msgC] \<and>
   filter isSystem [msgS, msgC] = filter isSystem [msgS, msgA, msgB, msgC] \<and>
   selectLoop demoTiktoken ''gpt-4'' [msgC, msgB, msgA, msgS] ([], False, Number 7)
     = Inr ([msgS, msgC], True, Number 2) \<and>
   (\<exists>r''. selectLoop demoTiktoken ''gpt-4'' (filter (\<lambda>m. \<not> isSystem m) [msgC, msgB, msgA, msgS])
         ([], False, Number 7) = Inr (r'', True, Number 2))"
proof -
  have run: "limitMessagesToTokenCount demoTiktoken jsonArray [msgS, msgA, msgB, msgC] []
               ''gpt-4'' (Some 12) = Inr [msgS, msgC]"
    by (simp add: demo_defs)
  have sel: "selectLoop demoTiktoken ''gpt-4'' [msgC, msgB, msgA, msgS] ([], False, Number 7)
     = Inr ([msgS, msgC], True, Number 2)"
    by (simp add: demo_defs)
  from system_messages_complete [OF run] sel run show ?thesis by blast
qed
section \<open>The retained non-system messages\<close>

text \<open>
  Claim C3. Whenever \<open>limitMessagesToTokenCount\<close> returns, the non-system messages of
  the output are a suffix of the input's non-system messages, in chronological order. With
  a resolved budget that is an integer \<open>B\<close> they are the ones the retention rule
  \<open>specRetention\<close> keeps, from the budget left after the tools and the system messages:
  going from the most recent message to the oldest, messages are kept while they fit, and
  the first one that does not fit is dropped together with every older one. (With a resolved
  budget that is not an integer no comparison succeeds and all of them are kept.) At the
  message that does not fit the loop sets the cutoff and leaves the budget as it is; from
  then on it only collects system messages, whatever the tokenizer (no token count is
  computed). On the scenario with a system message of 5 tokens and messages A, B, C of 10,
  10 and 5 tokens, no tools and \<open>maxTokens = 12\<close>, the output is the system message and C.
\<close>

theorem retained_suffix:
  "(limitMessagesToTokenCount tk stringify messages tools model maxTokens = Inr out \<longrightarrow>
      (resolveMaxTokens model maxTokens = Number B \<longrightarrow>
         filter (\<lambda>m. \<not> isSystem m) out =
           rev (specRetention tk model
                  (B - toolsTokens tk stringify model tools - systemTokens tk model messages)
                  (rev (filter (\<lambda>m. \<not> isSystem m) messages)))) \<and>
      (\<not> isInteger (resolveMaxTokens model maxTokens) \<longrightarrow>
         filter (\<lambda>m. \<not> isSystem m) out = filter (\<lambda>m. \<not> isSystem m) messages) \<and>
      suffix (filter (\<lambda>m. \<not> isSystem m) out) (filter (\<lambda>m. \<not> isSystem m) messages)) \<and>
   (\<forall>m older r b n tk' model'.
      \<not> isSystem m \<and> countMessageTokens tk model m = Inr n \<and> jsLt b (int n) \<longrightarrow>
      selectLoop tk model (m # older :: 'a message_scheme list) (r, False, b)
        = Inr (rev (filter isSystem older) @ r, True, b) \<and>
      selectLoop tk' model' older (r, True, b) = Inr (rev (filter isSystem older) @ r, True, b)) \<and>
   (\<forall>ms ma mb mc.
      role ms = ''system'' \<and> role ma = ''user'' \<and> role mb = ''assistant'' \<and> role mc = ''user'' \<and>
      countMessageTokens tk model ms = Inr 5 \<and> countMessageTokens tk model ma = Inr 10 \<and>
      countMessageTokens tk model mb = Inr 10 \<and> countMessageTokens tk model mc = Inr 5 \<longrightarrow>
      limitMessagesToTokenCount tk stringify ([ms, ma, mb, mc] :: 'a message_scheme list) []
          model (Some 12)
        = Inr [ms, mc])"
proof (intro conjI impI allI)
  assume ret: "limitMessagesToTokenCount tk stringify messages tools model maxTokens = Inr out"
  have integer: "filter (\<lambda>m. \<not> isSystem m) out =
           rev (specRetention tk model
                  (b - toolsTokens tk stringify model tools - systemTokens tk model messages)
                  (rev (filter (\<lambda>m. \<not> isSystem m) messages)))"
    if "resolveMaxTokens model maxTokens = Number b" for b
  proof -
    from ret that obtain c left where
      "selectLoop tk model (rev messages)
         ([], False, Number (b - toolsTokens tk stringify model tools
                       - systemTokens tk model messages)) = Inr (out, c, left)"
      by (rule limit_returns_integer)
    from selectLoop_others [OF this] show ?thesis by (simp add: rev_filter)
  qed
  have other: "out = messages" if "\<not> isInteger (resolveMaxTokens model maxTokens)"
    using ret that by (rule limit_returns_not_integer)
  {
    assume "resolveMaxTokens model maxTokens = Number B"
    then show "filter (\<lambda>m. \<not> isSystem m) out =
           rev (specRetention tk model
                  (B - toolsTokens tk stringify model tools - systemTokens tk model messages)
                  (rev (filter (\<lambda>m. \<not> isSystem m) messages)))"
      by (rule integer)
  }
  {
    assume "\<not> isInteger (resolveMaxTokens model maxTokens)"
    then show "filter (\<lambda>m. \<not> isSystem m) out = filter (\<lambda>m. \<not> isSystem m) messages"
      by (simp add: other)
  }
  show "suffix (filter (\<lambda>m. \<not> isSystem m) out) (filter (\<lambda>m. \<not> isSystem m) messages)"
  proof (cases "resolveMaxTokens model maxTokens")
    case (Number b)
    show ?thesis unfolding integer [OF Number] by (rule specRetention_suffix_rev)
  next
    case NaN
    then show ?thesis by (simp add: other)
  next
    case (Member name)
    then show ?thesis by (simp add: other)
  qed
next
  fix m :: "'a message_scheme" and older r b n
  assume "\<not> isSystem m \<and> countMessageTokens tk model m = Inr n \<and> jsLt b (int n)"
  then show "selectLoop tk model (m # older) (r, False, b)
      = Inr (rev (filter isSystem older) @ r, True, b)"
    by (simp add: isSystem_def selectLoop_cutoff)
next
  fix older :: "'a message_scheme list" and r b tk' model'
  show "selectLoop tk' model' older (r, True, b) = Inr (rev (filter isSystem older) @ r, True, b)"
    by (rule selectLoop_cutoff)
next
  fix ms ma mb mc :: "'a message_scheme"
  assume "role ms = ''system'' \<and> role ma = ''user'' \<and> role mb = ''assistant'' \<and> role mc = ''user'' \<and>
      countMessageTokens tk model ms = Inr 5 \<and> countMessageTokens tk model ma = Inr 10 \<and>
      countMessageTokens tk model mb = Inr 10 \<and> countMessageTokens tk model mc = Inr 5"
  then show "limitMessagesToTokenCount tk stringify [ms, ma, mb, mc] [] model (Some 12)
      = Inr [ms, mc]"
    by (simp add: limitMessagesToTokenCount_def limitMessages_def countToolsTokens_def
        resolveMaxTokens_def)
qed

theorem retained_suffix_witness:
  "limitMessagesToTokenCount demoTiktoken jsonArray [msgS, msgA, msgB, msgC] [] ''gpt-4'' (Some 12)
     = Inr [msgS, msgC] \<and>
   resolveMaxTokens ''gpt-4'' (Some 12) = Number 12 \<and>
   filter (\<lambda>m. \<not> isSystem m) [msgS, msgC]
     = rev (specRetention demoTiktoken ''gpt-4'' 7 [msgC, msgB, msgA]) \<and>
   suffix (filter (\<lambda>m. \<not> isSystem m) [msgS, msgC])
     (filter (\<lambda>m. \<not> isSystem m) [msgS, msgA, msgB, msgC]) \<and>
   \<not> isInteger (resolveMaxTokens ''toString'' None) \<and>
   limitMessagesToTokenCount demoTiktoken jsonArray [msgS, msgA, msgB, msgC] [] ''toString'' None
     = Inr [msgS, msgA, msgB, msgC] \<and>
   \<not> isSystem msgB \<and> countMessageTokens demoTiktoken ''gpt-4'' msgB = Inr 10 \<and>
   jsLt (Number 2) (int 10) \<and>
   selectLoop demoTiktoken ''gpt-4'' [msgB, msgA, msgS] ([msgC], False, Number 2)
     = Inr ([msgS, msgC], True, Number 2) \<and>
   selectLoop (\<lambda>m. None) ''gpt-4'' [msgA, msgS] ([msgC], True, Number 2)
     = Inr ([msgS, msgC], True, Number 2)"
proof -
  note inst = retained_suffix [where tk = demoTiktoken and stringify = jsonArray
      and messages = "[msgS, msgA, msgB, msgC]" and tools = "[]" and model = "''gpt-4''"
      and maxTokens = "Some 12" and out = "[msgS, msgC]" and B = 12]
  note inst' = retained_suffix [where tk = demoTiktoken and stringify = jsonArray
      and messages = "[msgS, msgA, msgB, msgC]" and tools = "[]" and model = "''toString''"
      and maxTokens = None and out = "[msgS, msgA, msgB, msgC]"]
  have run: "limitMessagesToTokenCount demoTiktoken jsonArray [msgS, msgA, msgB, msgC] []
               ''gpt-4'' (Some 12) = Inr [msgS, msgC]"
    by (simp add: demo_defs)
  have budget: "resolveMaxTokens ''gpt-4'' (Some 12) = Number 12"
    by (simp add: resolveMaxTokens_def)
  have costs: "toolsTokens demoTiktoken jsonArray ''gpt-4'' [] = 0"
    "systemTokens demoTiktoken ''gpt-4'' [msgS, msgA, msgB, msgC] = 5"
    by (simp_all add: toolsTokens_def systemTokens_def messageTokens_def isSystem_def demo_defs)
  have run': "limitMessagesToTokenCount demoTiktoken jsonArray [msgS, msgA, msgB, msgC] []
               ''toString'' None = Inr [msgS, msgA, msgB, msgC]"
    by (simp add: demo_defs)
  have budget': "\<not> isInteger (resolveMaxTokens ''toString'' None)"
    by (simp add: resolveMaxTokens_def maxTokensForOpenAIModel_def lookupMaxTokens_def
        maxTokensByModel_def objectPrototype_def)
  have over: "\<not> isSystem msgB \<and> countMessageTokens demoTiktoken ''gpt-4'' msgB = Inr 10 \<and>
      jsLt (Number 2) (int 10)"
    by (simp add: demo_defs isSystem_def)
  have scenario: "role msgS = ''system'' \<and> role msgA = ''user'' \<and> role msgB = ''assistant'' \<and>
      role msgC = ''user'' \<and>
      countMessageTokens demoTiktoken ''gpt-4'' msgS = Inr 5 \<and>
      countMessageTokens demoTiktoken ''gpt-4'' msgA = Inr 10 \<and>
      countMessageTokens demoTiktoken ''gpt-4'' msgB = Inr 10 \<and>
      countMessageTokens demoTiktoken ''gpt-4'' msgC = Inr 5"
    by (simp add: demo_defs)
  from inst run budget have "filter (\<lambda>m. \<not> isSystem m) [msgS, msgC]
     = rev (specRetention demoTiktoken ''gpt-4''
         (12 - toolsTokens demoTiktoken jsonArray ''gpt-4'' []
            - systemTokens demoTiktoken ''gpt-4'' [msgS, msgA, msgB, msgC])
         (rev (filter (\<lambda>m. \<not> isSystem m) [msgS, msgA, msgB, msgC])))"
    by blast
  moreover have "12 - toolsTokens demoTiktoken jsonArray ''gpt-4'' []
            - systemTokens demoTiktoken ''gpt-4'' [msgS, msgA, msgB, msgC] = 7"
    by (simp add: costs)
  moreover have "rev (filter (\<lambda>m. \<not> isSystem m) [msgS, msgA, msgB, msgC])
      = [msgC, msgB, msgA]"
    by (simp add: isSystem_def msgS_def msgA_def msgB_def msgC_def)
  ultimately have a: "filter (\<lambda>m. \<not> isSystem m) [msgS, msgC]
     = rev (specRetention demoTiktoken ''gpt-4'' 7 [msgC, msgB, msgA])"
    by (simp only:)
  from inst run have a': "suffix (filter (\<lambda>m. \<not> isSystem m) [msgS, msgC])
     (filter (\<lambda>m. \<not> isSystem m) [msgS, msgA, msgB, msgC])"
    by blast
  from inst' run' budget' have "filter (\<lambda>m. \<not> isSystem m) [msgS, msgA, msgB, msgC]
      = filter (\<lambda>m. \<not> isSystem m) [msgS, msgA, msgB, msgC]"
    by blast
  from inst have "\<forall>m older r b n tk' model'.
      \<not> isSystem m \<and> countMessageTokens demoTiktoken ''gpt-4'' m = Inr n \<and> jsLt b (int n) \<longrightarrow>
      selectLoop demoTiktoken ''gpt-4'' (m # older :: message list) (r, False, b)
        = Inr (rev (filter isSystem older) @ r, True, b) \<and>
      selectLoop tk' model' older (r, True, b) = Inr (rev (filter isSystem older) @ r, True, b)"
    by blast
  from this [rule_format, OF over, of "[msgA, msgS]" "[msgC]" "\<lambda>m. None" "''gpt-4''"]
  have b: "selectLoop demoTiktoken ''gpt-4'' [msgB, msgA, msgS] ([msgC], False, Number 2)
     = Inr ([msgS, msgC], True, Number 2) \<and>
   selectLoop (\<lambda>m. None) ''gpt-4'' [msgA, msgS] ([msgC], True, Number 2)
     = Inr ([msgS, msgC], True, Number 2)"
    by (simp add: isSystem_def msgS_def msgA_def)
  from inst scenario have "limitMessagesToTokenCount demoTiktoken jsonArray [msgS, msgA, msgB, msgC] []
      ''gpt-4'' (Some 12) = Inr [msgS, msgC]"
    by blast
  with budget a a' budget' run' b over show ?thesis by blast
qed

section \<open>The two reservations\<close>

text \<open>
  Claim C4, amended. With an encoding available, \<open>limitMessagesToTokenCount\<close> raises
  \<open>ToolsTooLarge\<close> exactly when the tool cost is greater than the resolved budget (for
  an integer budget \<open>B\<close>: when \<open>B\<close> is less than the tool cost). The tool cost is one
  count, of the single serialisation of the whole collection, when the collection is not
  empty, and 0 for the empty collection, which is not serialised. When it raises, no message
  has been looked at (the result is the same for all messages); otherwise the two loops run
  from the resolved budget minus exactly the tool cost.
\<close>

theorem tools_reservation:
  "encodingAvailable tk model \<Longrightarrow>
   (limitMessagesToTokenCount tk stringify messages tools model maxTokens = Inl ToolsTooLarge
      \<longleftrightarrow> jsGt (toolsTokens tk stringify model tools) (resolveMaxTokens model maxTokens)) \<and>
   (resolveMaxTokens model maxTokens = Number B \<longrightarrow>
      (limitMessagesToTokenCount tk stringify messages tools model maxTokens = Inl ToolsTooLarge
         \<longleftrightarrow> B < toolsTokens tk stringify model tools)) \<and>
   (tools \<noteq> [] \<longrightarrow>
      countToolsTokens tk stringify model tools = countTokens tk model (stringify tools)) \<and>
   (tools = [] \<longrightarrow> toolsTokens tk stringify model tools = 0) \<and>
   limitMessagesToTokenCount tk stringify messages tools model maxTokens =
     (if jsGt (toolsTokens tk stringify model tools) (resolveMaxTokens model maxTokens)
      then Inl ToolsTooLarge
      else limitMessages tk model messages
             (jsSub (resolveMaxTokens model maxTokens) (toolsTokens tk stringify model tools)))"
proof -
  assume av: "encodingAvailable tk model"
  note unfold = limit_unfold [OF av, of stringify messages tools maxTokens]
  have iff: "limitMessagesToTokenCount tk stringify messages tools model maxTokens = Inl ToolsTooLarge
      \<longleftrightarrow> jsGt (toolsTokens tk stringify model tools) (resolveMaxTokens model maxTokens)"
    unfolding unfold by (simp add: limitMessages_error)
  then have "resolveMaxTokens model maxTokens = Number B \<longrightarrow>
      (limitMessagesToTokenCount tk stringify messages tools model maxTokens = Inl ToolsTooLarge
         \<longleftrightarrow> B < toolsTokens tk stringify model tools)"
    by simp
  moreover have "tools \<noteq> [] \<longrightarrow>
      countToolsTokens tk stringify model tools = countTokens tk model (stringify tools)"
    by (simp add: countToolsTokens_def)
  moreover have "tools = [] \<longrightarrow> toolsTokens tk stringify model tools = 0"
    by (simp add: toolsTokens_def countToolsTokens_def)
  ultimately show ?thesis using iff unfold by blast
qed

theorem tools_reservation_witness:
  "encodingAvailable demoTiktoken ''gpt-4'' \<and>
   resolveMaxTokens ''gpt-4'' (Some 6) = Number 6 \<and>
   toolsTokens demoTiktoken jsonArray ''gpt-4'' [''{}'', ''{}''] = 7 \<and>
   countToolsTokens demoTiktoken jsonArray ''gpt-4'' [''{}'', ''{}'']
     = countTokens demoTiktoken ''gpt-4'' ''[{},{}]'' \<and>
   limitMessagesToTokenCount demoTiktoken jsonArray [msgS, msgA, msgB, msgC] [''{}'', ''{}'']
     ''gpt-4'' (Some 6) = Inl ToolsTooLarge \<and>
   limitMessagesToTokenCount demoTiktoken jsonArray [msgS, msgA, msgB, msgC] [''{}'', ''{}'']
     ''gpt-4'' (Some 7) = limitMessages demoTiktoken ''gpt-4'' [msgS, msgA, msgB, msgC] (Number 0) \<and>
   toolsTokens demoTiktoken jsonArray ''gpt-4'' [] = 0"
proof -
  have av: "encodingAvailable demoTiktoken ''gpt-4''"
    by (simp add: encodingAvailable_def demoTiktoken_def)
  have budget: "resolveMaxTokens ''gpt-4'' (Some 6) = Number 6"
    "resolveMaxTokens ''gpt-4'' (Some 7) = Number 7"
    by (simp_all add: resolveMaxTokens_def)
  have cost: "toolsTokens demoTiktoken jsonArray ''gpt-4'' [''{}'', ''{}''] = 7"
    by (simp add: toolsTokens_def demo_defs)
  have ser: "jsonArray [''{}'', ''{}''] = ''[{},{}]''"
    by (simp add: jsonArray_def)
  from tools_reservation [OF av, of jsonArray "[msgS, msgA, msgB, msgC]" "[''{}'', ''{}'']" "Some 6" 6]
    tools_reservation [OF av, of jsonArray "[msgS, msgA, msgB, msgC]" "[''{}'', ''{}'']" "Some 7" 7]
    tools_reservation [OF av, of jsonArray "[msgC]" "[]" "Some 5" 5]
    av cost ser budget
  show ?thesis by simp
qed

text \<open>
  The claim as stated charges the token count of the serialisation for every collection.
  For the empty collection the serialisation \<open>[]\<close> has tokens (two under the character
  encoding), yet with a budget of 5 a message of 5 tokens is retained: nothing was charged,
  and from a budget of \<open>5 - 2\<close> the message would have been dropped.
\<close>

theorem tools_reservation_counterexample:
  "countTokens demoTiktoken ''gpt-4'' (jsonArray []) = Inr 2 \<and>
   limitMessagesToTokenCount demoTiktoken jsonArray [msgC] [] ''gpt-4'' (Some 5) = Inr [msgC] \<and>
   limitMessages demoTiktoken ''gpt-4'' [msgC] (Number (5 - 2)) = Inr [] \<and>
   limitMessagesToTokenCount demoTiktoken jsonArray [msgC] [] ''gpt-4'' (Some 5)
     \<noteq> limitMessages demoTiktoken ''gpt-4'' [msgC] (Number (5 - 2))"
  by (simp add: demo_defs)

text \<open>
  Claim C5. With an encoding available and the tool cost not greater than the resolved
  budget, \<open>limitMessagesToTokenCount\<close> raises \<open>InsufficientSystemBudget\<close> exactly when
  the token costs of all system messages together are greater than the budget left after
  the tools (for an integer budget \<open>B\<close>: when \<open>B\<close> minus the tool cost is less than
  their total). The first loop decides it from the system messages alone, before any
  non-system message is considered, and a total equal to the budget left does not raise.
\<close>

theorem system_reservation:
  "encodingAvailable tk model \<Longrightarrow>
   \<not> jsGt (toolsTokens tk stringify model tools) (resolveMaxTokens model maxTokens) \<Longrightarrow>
   (limitMessagesToTokenCount tk stringify messages tools model maxTokens = Inl InsufficientSystemBudget
      \<longleftrightarrow> jsLt (jsSub (resolveMaxTokens model maxTokens) (toolsTokens tk stringify model tools))
             (systemTokens tk model messages)) \<and>
   (resolveMaxTokens model maxTokens = Number B \<longrightarrow>
      (limitMessagesToTokenCount tk stringify messages tools model maxTokens
         = Inl InsufficientSystemBudget
       \<longleftrightarrow> B - toolsTokens tk stringify model tools < systemTokens tk model messages)) \<and>
   (limitMessagesToTokenCount tk stringify messages tools model maxTokens = Inl InsufficientSystemBudget
      \<longleftrightarrow> systemLoop tk model (filter isSystem messages)
             (jsSub (resolveMaxTokens model maxTokens) (toolsTokens tk stringify model tools))
           = Inl InsufficientSystemBudget) \<and>
   (resolveMaxTokens model maxTokens = Number B \<and>
    systemTokens tk model messages = B - toolsTokens tk stringify model tools \<longrightarrow>
    (\<exists>out. limitMessagesToTokenCount tk stringify messages tools model maxTokens = Inr out))"
proof -
  assume av: "encodingAvailable tk model"
    and pass: "\<not> jsGt (toolsTokens tk stringify model tools) (resolveMaxTokens model maxTokens)"
  define v where "v = jsSub (resolveMaxTokens model maxTokens) (toolsTokens tk stringify model tools)"
  from pass have unfold: "limitMessagesToTokenCount tk stringify messages tools model maxTokens
      = limitMessages tk model messages v"
    by (simp add: limit_unfold [OF av] v_def)
  have main: "(limitMessages tk model messages v = Inl InsufficientSystemBudget
        \<longleftrightarrow> jsLt v (systemTokens tk model messages)) \<and>
      (limitMessages tk model messages v = Inl InsufficientSystemBudget
        \<longleftrightarrow> systemLoop tk model (filter isSystem messages) v = Inl InsufficientSystemBudget) \<and>
      (\<forall>b. v = Number b \<and> systemTokens tk model messages = b \<longrightarrow>
         (\<exists>out. limitMessages tk model messages v = Inr out))"
  proof (cases "isInteger v")
    case True
    then obtain b where b: "v = Number b" by (cases v) simp_all
    with pass have b0: "0 \<le> b"
      by (cases "resolveMaxTokens model maxTokens") (simp_all add: v_def)
    have sys: "systemLoop tk model (filter isSystem messages) (Number b) = Inl InsufficientSystemBudget
        \<longleftrightarrow> b < systemTokens tk model messages"
      using systemLoop_only_system [of tk model messages "Number b", symmetric]
      by (simp add: systemLoop_available [OF av b0])
    from limitMessages_available [OF av b0, of messages] sys show ?thesis
      unfolding b by auto
  next
    case False
    from limitMessages_available_not_integer [OF av False]
    have all: "limitMessages tk model messages v = Inr messages" .
    from systemLoop_available_not_integer [OF av False] obtain v' where
      "systemLoop tk model (filter isSystem messages) v = Inr v'" by blast
    with all False show ?thesis by (auto simp: not_integer_ops)
  qed
  have "resolveMaxTokens model maxTokens = Number B \<Longrightarrow>
      v = Number (B - toolsTokens tk stringify model tools)"
    by (simp add: v_def)
  with main show ?thesis unfolding unfold v_def [symmetric] by auto
qed

theorem system_reservation_witness:
  "encodingAvailable demoTiktoken ''gpt-4'' \<and>
   \<not> jsGt (toolsTokens demoTiktoken jsonArray ''gpt-4'' []) (resolveMaxTokens ''gpt-4'' (Some 8)) \<and>
   resolveMaxTokens ''gpt-4'' (Some 8) = Number 8 \<and>
   systemTokens demoTiktoken ''gpt-4'' [msgS, msgA, msgS] = 10 \<and>
   limitMessagesToTokenCount demoTiktoken jsonArray [msgS, msgA, msgS] [] ''gpt-4'' (Some 8)
     = Inl InsufficientSystemBudget \<and>
   (\<exists>out. limitMessagesToTokenCount demoTiktoken jsonArray [msgS, msgA, msgS] [] ''gpt-4'' (Some 10)
      = Inr out)"
proof -
  have av: "encodingAvailable demoTiktoken ''gpt-4''"
    by (simp add: encodingAvailable_def demoTiktoken_def)
  have budget: "resolveMaxTokens ''gpt-4'' (Some 8) = Number 8"
    "resolveMaxTokens ''gpt-4'' (Some 10) = Number 10"
    by (simp_all add: resolveMaxTokens_def)
  have tools: "toolsTokens demoTiktoken jsonArray ''gpt-4'' [] = 0"
    by (simp add: toolsTokens_def countToolsTokens_def)
  have pass8: "\<not> jsGt (toolsTokens demoTiktoken jsonArray ''gpt-4'' [])
                   (resolveMaxTokens ''gpt-4'' (Some 8))"
    and pass10: "\<not> jsGt (toolsTokens demoTiktoken jsonArray ''gpt-4'' [])
                   (resolveMaxTokens ''gpt-4'' (Some 10))"
    by (simp_all add: tools budget)
  have cost: "systemTokens demoTiktoken ''gpt-4'' [msgS, msgA, msgS] = 10"
    by (simp add: systemTokens_def messageTokens_def isSystem_def demo_defs)
  from system_reservation [OF av pass8, of "[msgS, msgA, msgS]" 8]
    system_reservation [OF av pass10, of "[msgS, msgA, msgS]" 10] av pass8 cost tools budget
  show ?thesis by simp
qed

section \<open>Enough budget\<close>

text \<open>
  Claim C6. With an encoding available, if the tool cost plus the token costs of all
  messages is at most the resolved budget, an integer \<open>B\<close>, then
  \<open>limitMessagesToTokenCount\<close> returns the input messages as they are. (It also does
  with a resolved budget that is not an integer, where no comparison succeeds.)
\<close>

theorem budget_suffices_identity:
  "encodingAvailable tk model \<Longrightarrow>
   (resolveMaxTokens model maxTokens = Number B \<and>
    toolsTokens tk stringify model tools + sum_list (map (messageTokens tk model) messages) \<le> B
      \<longrightarrow> limitMessagesToTokenCount tk stringify messages tools model maxTokens = Inr messages) \<and>
   (\<not> isInteger (resolveMaxTokens model maxTokens)
      \<longrightarrow> limitMessagesToTokenCount tk stringify messages tools model maxTokens = Inr messages)"
proof (intro conjI impI)
  assume av: "encodingAvailable tk model"
  {
    assume "\<not> isInteger (resolveMaxTokens model maxTokens)"
    then show "limitMessagesToTokenCount tk stringify messages tools model maxTokens = Inr messages"
      by (simp add: limit_unfold [OF av] not_integer_ops
          limitMessages_available_not_integer [OF av])
  }
  assume "resolveMaxTokens model maxTokens = Number B \<and>
    toolsTokens tk stringify model tools + sum_list (map (messageTokens tk model) messages) \<le> B"
  then have res: "resolveMaxTokens model maxTokens = Number B"
    and le: "toolsTokens tk stringify model tools + sum_list (map (messageTokens tk model) messages)
     \<le> B"
    by simp_all
  define b where "b = B - toolsTokens tk stringify model tools"
  define others where
    "others = sum_list (map (messageTokens tk model) (filter (\<lambda>m. \<not> isSystem m) messages))"
  have split: "sum_list (map (messageTokens tk model) messages)
      = systemTokens tk model messages + others"
    unfolding systemTokens_def others_def by (rule sum_list_split_filter)
  have o0: "0 \<le> others"
    unfolding others_def by (rule sum_list_nonneg) (auto simp: messageTokens_nonneg)
  have s0: "0 \<le> systemTokens tk model messages" by (rule systemTokens_nonneg)
  from le split o0 s0 have pass: "\<not> B < toolsTokens tk stringify model tools"
    and b0: "0 \<le> b" and sysfit: "\<not> b < systemTokens tk model messages"
    and fit: "others \<le> b - systemTokens tk model messages"
    by (simp_all add: b_def)
  have rev_others: "sum_list (map (messageTokens tk model) (filter (\<lambda>m. \<not> isSystem m) (rev messages)))
      = others"
    by (simp add: others_def rev_filter [symmetric] rev_map [symmetric])
  from fit have "selectLoop tk model (rev messages)
        ([], False, Number (b - systemTokens tk model messages))
      = Inr (rev (rev messages) @ [], False, Number (b - systemTokens tk model messages - others))"
    using selectLoop_all_fit [OF av, of "rev messages" "b - systemTokens tk model messages" "[]"]
    by (simp add: rev_others)
  with sysfit have "limitMessages tk model messages (Number b) = Inr messages"
    by (simp add: limitMessages_def systemLoop_available [OF av b0])
  with pass res show "limitMessagesToTokenCount tk stringify messages tools model maxTokens
      = Inr messages"
    by (simp add: limit_unfold [OF av] b_def)
qed

theorem budget_suffices_identity_witness:
  "encodingAvailable demoTiktoken ''gpt-4'' \<and>
   resolveMaxTokens ''gpt-4'' (Some 100) = Number 100 \<and>
   toolsTokens demoTiktoken jsonArray ''gpt-4'' []
     + sum_list (map (messageTokens demoTiktoken ''gpt-4'') [msgS, msgA, msgB, msgC]) \<le> 100 \<and>
   limitMessagesToTokenCount demoTiktoken jsonArray [msgS, msgA, msgB, msgC] [] ''gpt-4'' (Some 100)
     = Inr [msgS, msgA, msgB, msgC] \<and>
   encodingAvailable demoTiktoken ''valueOf'' \<and>
   \<not> isInteger (resolveMaxTokens ''valueOf'' None) \<and>
   limitMessagesToTokenCount demoTiktoken jsonArray [msgS, msgA, msgB, msgC] [] ''valueOf'' None
     = Inr [msgS, msgA, msgB, msgC]"
proof -
  have av: "encodingAvailable demoTiktoken ''gpt-4''"
    and av': "encodingAvailable demoTiktoken ''valueOf''"
    by (simp_all add: encodingAvailable_def demoTiktoken_def)
  have budget: "resolveMaxTokens ''gpt-4'' (Some 100) = Number 100"
    by (simp add: resolveMaxTokens_def)
  have le: "toolsTokens demoTiktoken jsonArray ''gpt-4'' []
     + sum_list (map (messageTokens demoTiktoken ''gpt-4'') [msgS, msgA, msgB, msgC]) \<le> 100"
    by (simp add: toolsTokens_def messageTokens_def demo_defs)
  have budget': "\<not> isInteger (resolveMaxTokens ''valueOf'' None)"
    by (simp add: resolveMaxTokens_def maxTokensForOpenAIModel_def lookupMaxTokens_def
        maxTokensByModel_def objectPrototype_def)
  from budget_suffices_identity [OF av, of "Some 100" 100 jsonArray "[]" "[msgS, msgA, msgB, msgC]"]
    budget le
  have a: "limitMessagesToTokenCount demoTiktoken jsonArray [msgS, msgA, msgB, msgC] [] ''gpt-4''
      (Some 100) = Inr [msgS, msgA, msgB, msgC]"
    by blast
  from budget_suffices_identity [OF av', of None _ jsonArray "[]" "[msgS, msgA, msgB, msgC]"]
    budget'
  have b: "limitMessagesToTokenCount demoTiktoken jsonArray [msgS, msgA, msgB, msgC] [] ''valueOf''
      None = Inr [msgS, msgA, msgB, msgC]"
    by blast
  from av budget le a av' budget' b show ?thesis by blast
qed

section \<open>The resolved budget\<close>

text \<open>
  Claim C7, amended. The resolved budget is the \<open>maxTokens\<close> argument whenever that
  argument is given and is not 0; it is the table limit of the model when the argument is
  absent and also when it is 0. A call without \<open>maxTokens\<close> behaves as the call with
  the table limit given, and a call with \<open>maxTokens = 0\<close> as the call without it.
\<close>

theorem resolved_budget:
  "(n \<noteq> 0 \<longrightarrow> resolveMaxTokens model (Some n) = Number n) \<and>
   resolveMaxTokens model (Some 0) = maxTokensForOpenAIModel model \<and>
   resolveMaxTokens model None = maxTokensForOpenAIModel model \<and>
   (maxTokensForOpenAIModel model = Number L \<longrightarrow>
      limitMessagesToTokenCount tk stringify messages tools model None =
        limitMessagesToTokenCount tk stringify messages tools model (Some L)) \<and>
   limitMessagesToTokenCount tk stringify messages tools model (Some 0) =
     limitMessagesToTokenCount tk stringify messages tools model None"
proof -
  have some: "n \<noteq> 0 \<longrightarrow> resolveMaxTokens model (Some n) = Number n"
    and zero: "resolveMaxTokens model (Some 0) = maxTokensForOpenAIModel model"
    and none: "resolveMaxTokens model None = maxTokensForOpenAIModel model"
    by (simp_all add: resolveMaxTokens_def)
  have "limitMessagesToTokenCount tk stringify messages tools model None =
     limitMessagesToTokenCount tk stringify messages tools model (Some L)"
    if table: "maxTokensForOpenAIModel model = Number L"
  proof -
    from table have limit: "resolveMaxTokens model (Some L) = maxTokensForOpenAIModel model"
      by (simp add: resolveMaxTokens_def)
    show ?thesis unfolding limitMessagesToTokenCount_def none limit ..
  qed
  moreover have "limitMessagesToTokenCount tk stringify messages tools model (Some 0) =
     limitMessagesToTokenCount tk stringify messages tools model None"
    unfolding limitMessagesToTokenCount_def none zero ..
  ultimately show ?thesis using some zero none by blast
qed

theorem resolved_budget_witness:
  "(12 :: int) \<noteq> 0 \<and> resolveMaxTokens ''gpt-4'' (Some 12) = Number 12 \<and>
   maxTokensForOpenAIModel ''gpt-4'' = Number 8192 \<and>
   resolveMaxTokens ''gpt-4'' None = Number 8192 \<and>
   limitMessagesToTokenCount demoTiktoken jsonArray [msgC] [] ''gpt-4'' None =
     limitMessagesToTokenCount demoTiktoken jsonArray [msgC] [] ''gpt-4'' (Some 8192)"
proof -
  have table: "maxTokensForOpenAIModel ''gpt-4'' = Number 8192"
    by (simp add: maxTokensForOpenAIModel_def lookupMaxTokens_def maxTokensByModel_def)
  from resolved_budget [of 12 "''gpt-4''" 8192 demoTiktoken jsonArray "[msgC]" "[]"] table
  show ?thesis by simp
qed

text \<open>
  The claim as stated makes the resolved budget 0 when 0 is given. The code resolves it to
  the table limit, 8192 for \<open>gpt-4\<close>, and retains a message of 5 tokens that no budget of
  0 admits.
\<close>

theorem resolved_budget_counterexample:
  "resolveMaxTokens ''gpt-4'' (Some 0) = Number 8192 \<and>
   resolveMaxTokens ''gpt-4'' (Some 0) \<noteq> Number 0 \<and>
   limitMessagesToTokenCount demoTiktoken jsonArray [msgC] [] ''gpt-4'' (Some 0) = Inr [msgC] \<and>
   limitMessages demoTiktoken ''gpt-4'' [msgC] (Number 0) = Inr []"
  by (simp add: demo_defs)

section \<open>Unknown models\<close>

text \<open>
  Claim C8, amended. For every model identifier that is neither in the limit table nor the
  name of a member of \<open>Object.prototype\<close>, \<open>maxTokensForOpenAIModel\<close> is the default
  128000. For every model identifier the tokenizer library has no encoding for, whether the
  limit table lists it or not, \<open>countTokens\<close> counts with the encoding of \<open>gpt-4o\<close> and
  raises nothing, given that the library has that encoding; with it, counting raises for no
  model at all. A model identifier the library has an encoding for is counted with that
  encoding, its own, also when the limit table does not list it.
\<close>

theorem unknown_model:
  "(model \<notin> fst ` set maxTokensByModel \<and> model \<notin> set objectPrototype \<longrightarrow>
      maxTokensForOpenAIModel model = Number 128000) \<and>
   (tk model = None \<and> tk ''gpt-4o'' = Some enc \<longrightarrow>
      countTokens tk model text = Inr (length (enc text))) \<and>
   (tk ''gpt-4o'' \<noteq> None \<longrightarrow> (\<exists>n. countTokens tk model text = Inr n)) \<and>
   (tk model = Some own \<longrightarrow> countTokens tk model text = Inr (length (own text)))"
proof (intro conjI impI)
  assume "model \<notin> fst ` set maxTokensByModel \<and> model \<notin> set objectPrototype"
  then have "map_of maxTokensByModel model = None" and "model \<notin> set objectPrototype"
    by (simp_all add: map_of_eq_None_iff)
  then show "maxTokensForOpenAIModel model = Number 128000"
    by (simp add: maxTokensForOpenAIModel_def lookupMaxTokens_def DEFAULT_MAX_TOKENS_def)
next
  assume "tk model = None \<and> tk ''gpt-4o'' = Some enc"
  then show "countTokens tk model text = Inr (length (enc text))"
    by (simp add: countTokens_def)
next
  assume "tk ''gpt-4o'' \<noteq> None"
  then show "\<exists>n. countTokens tk model text = Inr n"
    by (auto simp: countTokens_def split: option.splits)
next
  assume "tk model = Some own"
  then show "countTokens tk model text = Inr (length (own text))"
    by (simp add: countTokens_def)
qed

theorem unknown_model_witness:
  "''unknown-model-xyz'' \<notin> fst ` set maxTokensByModel \<and>
   ''unknown-model-xyz'' \<notin> set objectPrototype \<and>
   maxTokensForOpenAIModel ''unknown-model-xyz'' = Number 128000 \<and>
   demoTiktoken ''unknown-model-xyz'' = None \<and> demoTiktoken ''gpt-4o'' = Some charEncoding \<and>
   countTokens demoTiktoken ''unknown-model-xyz'' ''hello'' = Inr 5 \<and>
   twoModelTiktoken ''text-davinci-003'' = Some wholeTextEncoding \<and>
   countTokens twoModelTiktoken ''text-davinci-003'' ''hello'' = Inr 1"
proof -
  have absent: "''unknown-model-xyz'' \<notin> fst ` set maxTokensByModel \<and>
      ''unknown-model-xyz'' \<notin> set objectPrototype"
    by (simp add: maxTokensByModel_def objectPrototype_def)
  have tk: "demoTiktoken ''unknown-model-xyz'' = None \<and> demoTiktoken ''gpt-4o'' = Some charEncoding"
    by (simp add: demoTiktoken_def)
  have known: "twoModelTiktoken ''text-davinci-003'' = Some wholeTextEncoding"
    by (simp add: twoModelTiktoken_def)
  from unknown_model [of "''unknown-model-xyz''" demoTiktoken charEncoding "''hello''"] absent tk
  have a: "maxTokensForOpenAIModel ''unknown-model-xyz'' = Number 128000"
    and b: "countTokens demoTiktoken ''unknown-model-xyz'' ''hello'' = Inr 5"
    by (simp_all add: charEncoding_def)
  from unknown_model [of "''text-davinci-003''" twoModelTiktoken _ "''hello''" wholeTextEncoding]
    known
  have c: "countTokens twoModelTiktoken ''text-davinci-003'' ''hello'' = Inr 1"
    by (simp add: wholeTextEncoding_def)
  from absent a tk b known c show ?thesis by blast
qed

text \<open>
  The claim as stated lets every identifier outside the limit table fall back to the default
  encoding. The fallback follows the tokenizer library, not the limit table: an identifier
  the library knows and the table does not is counted with its own encoding, here 1 token
  where the encoding of \<open>gpt-4o\<close> gives 5.
\<close>

theorem unknown_model_counterexample:
  "''text-davinci-003'' \<notin> fst ` set maxTokensByModel \<and>
   countTokens twoModelTiktoken ''text-davinci-003'' ''hello'' = Inr 1 \<and>
   countTokens twoModelTiktoken ''gpt-4o'' ''hello'' = Inr 5 \<and>
   countTokens twoModelTiktoken ''text-davinci-003'' ''hello''
     \<noteq> countTokens twoModelTiktoken ''gpt-4o'' ''hello''"
  by (simp add: maxTokensByModel_def countTokens_def twoModelTiktoken_def wholeTextEncoding_def
      charEncoding_def)

section \<open>Nothing to count\<close>

text \<open>
  Claim C9. For every model and every tokenizer, the empty tool collection costs exactly 0
  tokens, whatever its serialisation would be (it is not serialised). So with no tools and
  a resolved budget that is not negative, \<open>limitMessagesToTokenCount\<close> never raises
  \<open>ToolsTooLarge\<close>, and the two loops run from the whole resolved budget.
\<close>

theorem empty_tools_free:
  "countToolsTokens tk stringify model [] = Inr 0 \<and>
   (resolveMaxTokens model maxTokens = Number B \<and> 0 \<le> B \<longrightarrow>
      limitMessagesToTokenCount tk stringify messages [] model maxTokens \<noteq> Inl ToolsTooLarge \<and>
      limitMessagesToTokenCount tk stringify messages [] model maxTokens =
        limitMessages tk model messages (Number B)) \<and>
   (\<not> jsLt (resolveMaxTokens model maxTokens) 0 \<longrightarrow>
      limitMessagesToTokenCount tk stringify messages [] model maxTokens \<noteq> Inl ToolsTooLarge \<and>
      limitMessagesToTokenCount tk stringify messages [] model maxTokens =
        limitMessages tk model messages (jsSub (resolveMaxTokens model maxTokens) 0))"
proof -
  have "jsGt 0 v \<longleftrightarrow> jsLt v 0" for v
    by (cases v) simp_all
  then show ?thesis
    by (simp add: countToolsTokens_def limitMessagesToTokenCount_def limitMessages_error)
qed

theorem empty_tools_free_witness:
  "resolveMaxTokens ''gpt-4'' (Some 12) = Number 12 \<and> (0 :: int) \<le> 12 \<and>
   \<not> jsLt (resolveMaxTokens ''gpt-4'' (Some 12)) 0 \<and>
   limitMessagesToTokenCount demoTiktoken jsonArray [msgS, msgA, msgB, msgC] [] ''gpt-4'' (Some 12)
     \<noteq> Inl ToolsTooLarge \<and>
   limitMessagesToTokenCount demoTiktoken jsonArray [msgS, msgA, msgB, msgC] [] ''gpt-4'' (Some 12)
     = limitMessages demoTiktoken ''gpt-4'' [msgS, msgA, msgB, msgC] (Number 12)"
proof -
  have eq: "resolveMaxTokens ''gpt-4'' (Some 12) = Number 12"
    by (simp add: resolveMaxTokens_def)
  from empty_tools_free [of demoTiktoken jsonArray "''gpt-4''" "Some 12" 12
      "[msgS, msgA, msgB, msgC]"] eq
  show ?thesis by (simp add: limitMessages_error)
qed

text \<open>
  Claim C10. Let the tokenizer count 0 tokens for the empty text, and let the content of a
  message be absent, null or the empty string. Then its token count is defined and is 0.
  As a system message it leaves the first loop's budget as it is, wherever it stands. As a
  non-system message, reached with the cutoff not set, it is retained and the budget is
  unchanged; so whenever \<open>limitMessagesToTokenCount\<close> returns and has retained every
  non-system message more recent than it, it has retained this message too. (The loops
  are reached with a budget of type number that is not negative.)
\<close>

theorem empty_content_free:
  assumes zero: "countTokens tk model '''' = Inr 0"
    and empty: "content m = Undefined \<or> content m = Null \<or> content m = Str ''''"
  shows "countMessageTokens tk model m = Inr 0 \<and>
    (isSystem m \<and> numberTyped b \<and> \<not> jsLt b 0 \<longrightarrow>
       systemLoop tk model (before @ m # after) b = systemLoop tk model (before @ after) b) \<and>
    (\<not> isSystem m \<and> numberTyped b \<and> \<not> jsLt b 0 \<longrightarrow>
       selectLoop tk model (m # rest) (r, False, b) = selectLoop tk model rest (m # r, False, b)) \<and>
    (\<not> isSystem m \<and>
     limitMessagesToTokenCount tk stringify (older @ m # newer) tools model maxTokens = Inr out \<and>
     suffix (filter (\<lambda>m. \<not> isSystem m) newer) (filter (\<lambda>m. \<not> isSystem m) out) \<longrightarrow>
       suffix (m # filter (\<lambda>m. \<not> isSystem m) newer) (filter (\<lambda>m. \<not> isSystem m) out))"
proof (intro conjI impI)
  from empty have "contentOrEmpty (content m) = ''''" by auto
  with zero show count: "countMessageTokens tk model m = Inr 0"
    by (simp add: countMessageTokens_def)
  then have cost: "messageTokens tk model m = 0" by (simp add: messageTokens_def)
  {
    assume "isSystem m \<and> numberTyped b \<and> \<not> jsLt b 0"
    then have sys: "role m = ''system''" and typed: "numberTyped b" and b0: "\<not> jsLt b 0"
      by (simp_all add: isSystem_def)
    show "systemLoop tk model (before @ m # after) b = systemLoop tk model (before @ after) b"
    proof (cases "systemLoop tk model before b")
      case (Inl e)
      then show ?thesis by (simp add: systemLoop_append)
    next
      case (Inr b1)
      from systemLoop_nonneg [OF Inr typed b0] have "numberTyped b1" and "\<not> jsLt b1 0"
        by simp_all
      with Inr sys count show ?thesis by (simp add: systemLoop_append jsSub_zero)
    qed
  }
  {
    assume "\<not> isSystem m \<and> numberTyped b \<and> \<not> jsLt b 0"
    with count show "selectLoop tk model (m # rest) (r, False, b)
        = selectLoop tk model rest (m # r, False, b)"
      by (simp add: isSystem_def jsSub_zero)
  }
  {
    assume h: "\<not> isSystem m \<and>
      limitMessagesToTokenCount tk stringify (older @ m # newer) tools model maxTokens = Inr out \<and>
      suffix (filter (\<lambda>m. \<not> isSystem m) newer) (filter (\<lambda>m. \<not> isSystem m) out)"
    define N where "N = filter (\<lambda>m. \<not> isSystem m) newer"
    define P where "P = filter (\<lambda>m. \<not> isSystem m) older"
    from h have ret: "limitMessagesToTokenCount tk stringify (older @ m # newer) tools model maxTokens
        = Inr out" and nonsys: "\<not> isSystem m" by simp_all
    have "\<exists>kept. filter (\<lambda>m. \<not> isSystem m) out = kept @ m # N"
    proof (cases "isInteger (resolveMaxTokens model maxTokens)")
      case False
      from limit_returns_not_integer [OF ret False] nonsys
      have "filter (\<lambda>m. \<not> isSystem m) out = P @ m # N"
        by (simp add: N_def P_def)
      then show ?thesis by blast
    next
      case True
      then obtain B where B: "resolveMaxTokens model maxTokens = Number B"
        by (cases "resolveMaxTokens model maxTokens") simp_all
      define b1 where "b1 = B - toolsTokens tk stringify model tools
                       - systemTokens tk model (older @ m # newer)"
      from ret B obtain c left where
        sel: "selectLoop tk model (rev (older @ m # newer)) ([], False, Number b1)
                = Inr (out, c, left)"
        and pass: "toolsTokens tk stringify model tools \<le> B"
        and sys: "systemLoop tk model (older @ m # newer)
                    (Number (B - toolsTokens tk stringify model tools)) = Inr (Number b1)"
        unfolding b1_def by (rule limit_returns_integer)
      from pass have "\<not> jsLt (Number (B - toolsTokens tk stringify model tools)) 0"
        by simp
      from systemLoop_nonneg [OF sys _ this] have b1: "0 \<le> b1" by simp
      from selectLoop_others [OF sel] nonsys
      have out: "filter (\<lambda>m. \<not> isSystem m) out
          = rev (specRetention tk model b1 (rev N @ m # rev P))"
        by (simp add: N_def P_def rev_filter)
      from h have "suffix N (filter (\<lambda>m. \<not> isSystem m) out)" by (simp add: N_def)
      then have "prefix (rev N) (specRetention tk model b1 (rev N @ m # rev P))"
        by (simp add: out suffix_to_prefix)
      from specRetention_prefix_append [OF this b1] obtain b' where b': "0 \<le> b'"
        and fit: "specRetention tk model b1 (rev N @ m # rev P)
                    = rev N @ specRetention tk model b' (m # rev P)"
        by blast
      from b' cost have "specRetention tk model b' (m # rev P)
          = m # specRetention tk model b' (rev P)"
        by simp
      with fit out have "filter (\<lambda>m. \<not> isSystem m) out
          = rev (specRetention tk model b' (rev P)) @ m # N"
        by simp
      then show ?thesis by blast
    qed
    then show "suffix (m # filter (\<lambda>m. \<not> isSystem m) newer) (filter (\<lambda>m. \<not> isSystem m) out)"
      by (auto simp: N_def suffix_def)
  }
qed

theorem empty_content_free_witness:
  "countTokens demoTiktoken ''gpt-4'' '''' = Inr 0 \<and>
   content msgEmpty = Null \<and> \<not> isSystem msgEmpty \<and>
   countMessageTokens demoTiktoken ''gpt-4'' msgEmpty = Inr 0 \<and>
   limitMessagesToTokenCount demoTiktoken jsonArray [msgA, msgEmpty, msgC] [] ''gpt-4'' (Some 5)
     = Inr [msgEmpty, msgC] \<and>
   suffix (filter (\<lambda>m. \<not> isSystem m) [msgC]) (filter (\<lambda>m. \<not> isSystem m) [msgEmpty, msgC]) \<and>
   suffix (msgEmpty # filter (\<lambda>m. \<not> isSystem m) [msgC])
     (filter (\<lambda>m. \<not> isSystem m) [msgEmpty, msgC]) \<and>
   numberTyped (Number 0) \<and> \<not> jsLt (Number 0) 0 \<and>
   selectLoop demoTiktoken ''gpt-4'' [msgEmpty, msgA] ([msgC], False, Number 0)
     = selectLoop demoTiktoken ''gpt-4'' [msgA] ([msgEmpty, msgC], False, Number 0) \<and>
   content msgNoContent = Undefined \<and> isSystem msgNoContent \<and>
   numberTyped (Number 5) \<and> \<not> jsLt (Number 5) 0 \<and>
   systemLoop demoTiktoken ''gpt-4'' [msgS, msgNoContent, msgA] (Number 5)
     = systemLoop demoTiktoken ''gpt-4'' [msgS, msgA] (Number 5)"
proof -
  have zero: "countTokens demoTiktoken ''gpt-4'' '''' = Inr 0"
    by (simp add: demo_defs)
  have user: "content msgEmpty = Undefined \<or> content msgEmpty = Null \<or> content msgEmpty = Str ''''"
    and null: "content msgEmpty = Null" and nonsys: "\<not> isSystem msgEmpty"
    by (simp_all add: msgEmpty_def isSystem_def)
  have system: "content msgNoContent = Undefined \<or> content msgNoContent = Null
      \<or> content msgNoContent = Str ''''"
    and undef: "content msgNoContent = Undefined" and sys: "isSystem msgNoContent"
    by (simp_all add: msgNoContent_def isSystem_def)
  have run: "limitMessagesToTokenCount demoTiktoken jsonArray [msgA, msgEmpty, msgC] [] ''gpt-4'' (Some 5)
     = Inr [msgEmpty, msgC]"
    by (simp add: demo_defs msgEmpty_def)
  have newer: "suffix (filter (\<lambda>m. \<not> isSystem m) [msgC])
      (filter (\<lambda>m. \<not> isSystem m) [msgEmpty, msgC])"
    by (simp add: isSystem_def msgC_def msgEmpty_def suffix_def)
  have budgets: "numberTyped (Number 0)" "\<not> jsLt (Number 0) 0"
    "numberTyped (Number 5)" "\<not> jsLt (Number 5) 0"
    by simp_all
  note user_case = empty_content_free [OF zero user, where b = "Number 0" and rest = "[msgA]"
      and r = "[msgC]" and stringify = jsonArray and older = "[msgA]" and newer = "[msgC]"
      and tools = "[]" and maxTokens = "Some 5" and out = "[msgEmpty, msgC]"]
  note system_case = empty_content_free [OF zero system, where b = "Number 5" and before = "[msgS]"
      and after = "[msgA]"]
  from user_case nonsys run newer
  have a: "countMessageTokens demoTiktoken ''gpt-4'' msgEmpty = Inr 0"
    and b: "selectLoop demoTiktoken ''gpt-4'' [msgEmpty, msgA] ([msgC], False, Number 0)
     = selectLoop demoTiktoken ''gpt-4'' [msgA] ([msgEmpty, msgC], False, Number 0)"
    and c: "suffix (msgEmpty # filter (\<lambda>m. \<not> isSystem m) [msgC])
     (filter (\<lambda>m. \<not> isSystem m) [msgEmpty, msgC])"
    by simp_all
  from system_case sys
  have d: "systemLoop demoTiktoken ''gpt-4'' [msgS, msgNoContent, msgA] (Number 5)
     = systemLoop demoTiktoken ''gpt-4'' [msgS, msgA] (Number 5)"
    by simp
  from zero null nonsys a run newer c budgets b undef sys d show ?thesis by blast
qed

end
